theory Spec2Isabelle
  imports Main
begin

unbundle bit_operations_syntax

section \<open>JavaScript values and string primitives\<close>

text \<open>
  The message parser (\<^verbatim>\<open>src/message-parser.js\<close>) is JavaScript. Its strings are modelled
  as \<^typ>\<open>string\<close>, one \<^typ>\<open>char\<close> per code unit below 256. Its numbers are
  modelled as \<open>js_number\<close>: an integer or \<open>NaN\<close>. Every number the parser computes is
  an integer (a clock reading, the result of \<^verbatim>\<open>parseInt\<close>, a product with 1000) or
  \<open>NaN\<close>; the model is exact for magnitudes below \<open>2^53\<close> and does not distinguish
  \<open>-0\<close> from \<open>0\<close>.
\<close>

datatype js_number = Num int | NaN

definition isNaN :: "js_number \<Rightarrow> bool" where
  "isNaN x = (case x of NaN \<Rightarrow> True | Num n \<Rightarrow> False)"

text \<open>White space as \<^verbatim>\<open>String.prototype.trim\<close> and the regular expression class
  \<^verbatim>\<open>\s\<close> read it, among the code units below 256.\<close>

definition white_space :: "char list" where
  "white_space = [CHR 0x09, CHR 0x0A, CHR 0x0B, CHR 0x0C, CHR 0x0D, CHR 0x20, CHR 0xA0]"

definition is_white_space :: "char \<Rightarrow> bool" where
  "is_white_space c = (c \<in> set white_space)"

definition trim :: "string \<Rightarrow> string" where
  "trim s = rev (dropWhile is_white_space (rev (dropWhile is_white_space s)))"

definition charAt :: "string \<Rightarrow> nat \<Rightarrow> string" where
  "charAt s i = take 1 (drop i s)"

text \<open>\<^verbatim>\<open>s.substr(start)\<close> and \<^verbatim>\<open>s.substr(start, len)\<close>: a negative start counts
  from the end of the string, a negative length is no character.\<close>

definition substr :: "string \<Rightarrow> int \<Rightarrow> string" where
  "substr s start =
     (if start < 0 then drop (nat (max 0 (int (length s) + start))) s else drop (nat start) s)"

definition substr_len :: "string \<Rightarrow> int \<Rightarrow> int \<Rightarrow> string" where
  "substr_len s start len = (if len \<le> 0 then [] else take (nat len) (substr s start))"

primrec index_from :: "char \<Rightarrow> string \<Rightarrow> nat \<Rightarrow> int" where
  "index_from c [] i = - 1"
| "index_from c (x # xs) i = (if x = c then int i else index_from c xs (Suc i))"

definition indexOf :: "string \<Rightarrow> char \<Rightarrow> int" where
  "indexOf s c = index_from c s 0"

primrec last_index_from :: "char \<Rightarrow> string \<Rightarrow> nat \<Rightarrow> int \<Rightarrow> int" where
  "last_index_from c [] i found = found"
| "last_index_from c (x # xs) i found =
     last_index_from c xs (Suc i) (if x = c then int i else found)"

definition lastIndexOf :: "string \<Rightarrow> char \<Rightarrow> int" where
  "lastIndexOf s c = last_index_from c s 0 (- 1)"

text \<open>\<^verbatim>\<open>s.split(d)\<close> for a one-character separator: the pieces between the
  separators, never an empty array.\<close>

fun split_str :: "string \<Rightarrow> char \<Rightarrow> string list" where
  "split_str [] d = [[]]"
| "split_str (c # cs) d =
     (if c = d then [] # split_str cs d
      else (case split_str cs d of [] \<Rightarrow> [[c]] | p # ps \<Rightarrow> (c # p) # ps))"

fun join :: "string list \<Rightarrow> string \<Rightarrow> string" where
  "join [] d = []"
| "join [x] d = x"
| "join (x # y # ys) d = x @ d @ join (y # ys) d"

fun str_includes :: "string \<Rightarrow> string \<Rightarrow> bool" where
  "str_includes [] sub = (sub = [])"
| "str_includes (c # cs) sub = (take (length sub) (c # cs) = sub \<or> str_includes cs sub)"

definition toLowerCase_char :: "char \<Rightarrow> char" where
  "toLowerCase_char c =
     (case map_of (zip ''ABCDEFGHIJKLMNOPQRSTUVWXYZ'' ''abcdefghijklmnopqrstuvwxyz'') c of
        Some l \<Rightarrow> l
      | None \<Rightarrow> c)"

text \<open>
  Modelled from the spec: \<^verbatim>\<open>Tools.toId\<close> is defined in a module that is not part of
  the sources. The spec's glossary describes a normalized identifier as the "lowercase,
  punctuation/space-stripped canonical form of a name": the text in lower case, keeping
  only the letters \<open>a\<close> to \<open>z\<close> and the digits.
\<close>

definition toId :: "string \<Rightarrow> string" where
  "toId text = filter (\<lambda>c. c \<in> set ''abcdefghijklmnopqrstuvwxyz0123456789'')
                 (map toLowerCase_char text)"

subsection \<open>parseInt\<close>

primrec position :: "'a \<Rightarrow> 'a list \<Rightarrow> nat option" where
  "position a [] = None"
| "position a (x # xs) =
     (if x = a then Some 0 else (case position a xs of None \<Rightarrow> None | Some i \<Rightarrow> Some (Suc i)))"

definition digit_val :: "char \<Rightarrow> nat option" where
  "digit_val c = position (toLowerCase_char c) ''0123456789abcdefghijklmnopqrstuvwxyz''"

text \<open>The longest prefix of digits of the radix, as a number; \<open>None\<close> when the text
  starts with no digit.\<close>

fun read_digits :: "nat \<Rightarrow> nat option \<Rightarrow> string \<Rightarrow> nat option" where
  "read_digits r acc [] = acc"
| "read_digits r acc (c # cs) =
     (case digit_val c of
        None \<Rightarrow> acc
      | Some d \<Rightarrow>
          if d < r
          then read_digits r (Some (r * (case acc of None \<Rightarrow> 0 | Some a \<Rightarrow> a) + d)) cs
          else acc)"

text \<open>
  \<^verbatim>\<open>parseInt(s, radix)\<close>; the radix \<open>None\<close> is the call with one argument. Leading white
  space is skipped, a sign is read, a \<^verbatim>\<open>0x\<close> prefix selects (or is allowed by) radix 16,
  and the digits are read as far as they go.
\<close>

definition parseInt :: "string \<Rightarrow> nat option \<Rightarrow> js_number" where
  "parseInt s radix =
     (let s1 = dropWhile is_white_space s;
          negative = (take 1 s1 = ''-'');
          s2 = (if take 1 s1 = ''-'' \<or> take 1 s1 = ''+'' then drop 1 s1 else s1);
          r0 = (case radix of None \<Rightarrow> 10 | Some r \<Rightarrow> if r = 0 then 10 else r);
          stripPrefix = (case radix of None \<Rightarrow> True | Some r \<Rightarrow> r = 0 \<or> r = 16);
          prefixed = (stripPrefix \<and> (take 2 s2 = ''0x'' \<or> take 2 s2 = ''0X''));
          r = (if prefixed then 16 else r0);
          s3 = (if prefixed then drop 2 s2 else s2)
      in if r < 2 \<or> 36 < r then NaN
         else (case read_digits r None s3 of
                 None \<Rightarrow> NaN
               | Some n \<Rightarrow> Num (if negative then - int n else int n)))"

section \<open>The format catalog: parseFormats\<close>

record format_entry =
  fmt_name :: string
  fmt_id :: string
  fmt_section :: string
  searchShow :: bool
  challengeShow :: bool
  tournamentShow :: bool

record MessageParser =
  formatsList :: "string list"
  formatsData :: "string \<rightharpoonup> format_entry"

text \<open>The last steps of one descriptor: the identifier of the cleaned name, and no
  entry when it is empty (\<^verbatim>\<open>if (!id) continue\<close>).\<close>

definition format_entry_of :: "string \<Rightarrow> string \<Rightarrow> bool \<Rightarrow> bool \<Rightarrow> bool \<Rightarrow> format_entry option" where
  "format_entry_of name cur_section search challenge tournament =
     (let ident = toId name
      in if ident = [] then None
         else Some \<lparr>fmt_name = name, fmt_id = ident, fmt_section = cur_section,
                    searchShow = search, challengeShow = challenge,
                    tournamentShow = tournament\<rparr>)"

text \<open>The \<^verbatim>\<open>else\<close> branch of the loop of \<^verbatim>\<open>parseFormats\<close>: one format descriptor.\<close>

definition parse_descriptor :: "string \<Rightarrow> string \<Rightarrow> format_entry option" where
  "parse_descriptor name cur_section =
     (let lastCommaIndex = lastIndexOf name CHR '','';
          code = (if 0 \<le> lastCommaIndex
                  then parseInt (substr name (lastCommaIndex + 1)) (Some 16) else NaN)
      in case code of
           Num c \<Rightarrow>
             format_entry_of (substr_len name 0 lastCommaIndex) cur_section
               (c AND 2 \<noteq> 0) (c AND 4 \<noteq> 0) (c AND 8 \<noteq> 0)
         | NaN \<Rightarrow>
             (let name1 = (if substr name (int (length name) - 2) = '',#''
                           then substr_len name 0 (int (length name) - 2) else name)
              in if substr name1 (int (length name1) - 2) = '',,''
                 then format_entry_of (substr_len name1 0 (int (length name1) - 2)) cur_section
                        True False True
                 else if substr name1 (int (length name1) - 1) = '',''
                 then format_entry_of (substr_len name1 0 (int (length name1) - 1)) cur_section
                        False True True
                 else format_entry_of name1 cur_section True True True))"

text \<open>The loop of \<^verbatim>\<open>parseFormats\<close> over \<^verbatim>\<open>formatsList\<close>, with its variables
  \<^verbatim>\<open>isSection\<close> and \<^verbatim>\<open>section\<close> and the table built so far.\<close>

fun formats_loop ::
  "string list \<Rightarrow> bool \<Rightarrow> string \<Rightarrow> (string \<rightharpoonup> format_entry) \<Rightarrow> (string \<rightharpoonup> format_entry)" where
  "formats_loop [] isSection cur_section data = data"
| "formats_loop (x # xs) isSection cur_section data =
     (if isSection then formats_loop xs False x data
      else if x = '',LL'' then formats_loop xs isSection cur_section data
      else if x = [] \<or> (charAt x 0 = '','' \<and> \<not> isNaN (parseInt (substr x 1) None))
      then formats_loop xs True cur_section data
      else (case parse_descriptor x cur_section of
              None \<Rightarrow> formats_loop xs isSection cur_section data
            | Some e \<Rightarrow> formats_loop xs isSection cur_section (data(fmt_id e \<mapsto> e))))"

text \<open>\<^verbatim>\<open>parseFormats()\<close>: the parser with its new table, and whether
  \<^verbatim>\<open>Tools.FormatCache.clear()\<close> was called.\<close>

definition parseFormats :: "MessageParser \<Rightarrow> MessageParser \<times> bool" where
  "parseFormats this =
     (if formatsList this = [] then (this, False)
      else (this\<lparr>formatsData := formats_loop (formatsList this) False [] Map.empty\<rparr>, True))"

section \<open>Users, rooms, configuration and commands\<close>

text \<open>
  The parser works on objects of modules that are not part of the sources (\<^verbatim>\<open>Users\<close>,
  \<^verbatim>\<open>Rooms\<close>, \<^verbatim>\<open>Client\<close>, \<^verbatim>\<open>Config\<close>, \<^verbatim>\<open>Commands\<close>, \<^verbatim>\<open>Tools\<close>). The model keeps the
  fields the parser reads and writes. A room object is identified with its id and a user
  object with its id, the key of the user registry: the maps \<^verbatim>\<open>room.users\<close> and
  \<^verbatim>\<open>user.rooms\<close>, which JavaScript keys by the objects, are keyed by these ids. Record
  fields carry a prefix where the source's name is needed for a variable.
\<close>

text \<open>The entry of \<^verbatim>\<open>user.roomData\<close> for one room: \<^verbatim>\<open>{messages, points, lastAction}\<close>.
  \<^verbatim>\<open>points\<close> is \<open>None\<close> when it holds \<^verbatim>\<open>undefined\<close>.\<close>

record moderation_data =
  md_messages :: "(string \<times> js_number) list"
  md_points :: "int option"
  md_lastAction :: js_number

record User =
  user_name :: string
  user_rooms :: "string \<rightharpoonup> string"
  user_roomData :: "string \<rightharpoonup> moderation_data"

text \<open>What a thrown JavaScript value is to the \<^verbatim>\<open>catch\<close> block of \<^verbatim>\<open>Context.run\<close>, which
  reads \<^verbatim>\<open>e.stack\<close>: an object with a stack (an \<^verbatim>\<open>Error\<close>), another value whose
  \<^verbatim>\<open>stack\<close> property is \<^verbatim>\<open>undefined\<close> (a thrown string or number), or \<^verbatim>\<open>null\<close> or
  \<^verbatim>\<open>undefined\<close>, on which reading a property raises a \<^verbatim>\<open>TypeError\<close>.\<close>

datatype thrown = Thrown_Error string | Thrown_other | Thrown_nullish

datatype js_error = TypeError | Error string | Uncaught thrown

datatype call_result = Returns | Throws thrown

text \<open>A pending listener of a room is called with no argument; what it does is its own
  business, the model keeps how the call ends.\<close>

record Room =
  room_users :: "string \<rightharpoonup> string"
  room_listeners :: "string \<rightharpoonup> call_result"

text \<open>\<^verbatim>\<open>Context.room\<close> is a room or, for a private message, a user.\<close>

datatype place = In_room string | In_PM string

text \<open>The arguments a command handler is called with:
  \<^verbatim>\<open>(target, this.room, this.user, this.command, this.time)\<close>.\<close>

record invocation =
  inv_target :: string
  inv_room :: place
  inv_user :: string
  inv_command :: string
  inv_time :: js_number

text \<open>An entry of \<^verbatim>\<open>Commands\<close>: a function, or a string (an alias). A handler is
  opaque: the model keeps how its call ends, for each list of arguments.\<close>

datatype command_entry = Handler "invocation \<Rightarrow> call_result" | Alias string

record punishment =
  p_action :: string
  p_rule :: string
  p_reason :: string

datatype allow_moderation = Allow_flag bool | Allow_rooms "string \<rightharpoonup> bool"

datatype config_rooms = Rooms_unset | Rooms_array "string list" | Rooms_not_array

text \<open>
  \<^verbatim>\<open>Config\<close>. The hook \<^verbatim>\<open>parseMessage\<close> is modelled by its answer: \<open>True\<close> when it
  returns \<^verbatim>\<open>false\<close>, which vetoes the line. The hook \<^verbatim>\<open>moderate\<close> returns an array of
  punishments (\<open>Some\<close>) or something else (\<open>None\<close>). A table that is not configured is
  \<open>None\<close>.
\<close>

record Config =
  cfg_username :: string
  cfg_commandCharacter :: string
  cfg_rooms :: config_rooms
  cfg_parseMessage :: "(string \<Rightarrow> string option \<Rightarrow> string list \<Rightarrow> bool) option"
  cfg_moderate :: "(string \<Rightarrow> string \<Rightarrow> string \<Rightarrow> js_number \<Rightarrow> punishment list option) option"
  cfg_allowModeration :: allow_moderation
  cfg_punishmentPoints :: "(string \<rightharpoonup> int) option"
  cfg_punishmentActions :: "(string \<rightharpoonup> string) option"
  cfg_punishmentReasons :: "(string \<rightharpoonup> string) option"

text \<open>
  What one call of the parser reads and does not change: the configuration, the command
  table, \<^verbatim>\<open>User.hasRank\<close> (of a module that is not part of the sources, taken as a
  parameter: it reads the user, the room and the rank asked for), the clock
  (\<^verbatim>\<open>Date.now()\<close>) and the formatting of a time (\<^verbatim>\<open>toLocaleString\<close>).
\<close>

record Env =
  Config :: Config
  Commands :: "string \<rightharpoonup> command_entry"
  hasRank :: "User \<Rightarrow> string \<Rightarrow> string \<Rightarrow> bool"
  Date_now :: int
  toLocaleString :: "js_number \<Rightarrow> string"

text \<open>What the parser changes: the user registry, the rooms, the fields of
  \<^verbatim>\<open>Client\<close> and its own format tables.\<close>

record World =
  Users_users :: "string \<rightharpoonup> User"
  Users_self_id :: string
  Rooms_rooms :: "string \<Rightarrow> Room"
  Client_challengeKeyId :: "string option"
  Client_challenge :: "string option"
  Client_lockdown :: bool
  parser :: MessageParser

text \<open>
  The calls into the collaborators, in the order the parser makes them. What a
  collaborator does when called is outside the parser. \<open>Call_parseCommand\<close> and
  \<open>Call_moderate\<close> mark the places where \<^verbatim>\<open>parse\<close> calls the two methods.
\<close>

datatype event =
    Client_login
  | Client_send string
  | Console_log string
  | Process_exit
  | Room_onJoin string string string
  | Room_onLeave string string
  | Room_onRename string string string
  | Rooms_destroy string
  | Room_say place string
  | FormatCache_clear
  | Listener_call string string
  | Handler_call string invocation
  | Call_parseCommand string
  | Call_moderate string

text \<open>How a call ends: with a value, with an exception, or with the process gone.\<close>

datatype 'a completion = Normal 'a | Raised js_error | Exited

text \<open>\<^verbatim>\<open>Users.self\<close>, read from the registry, where \<^verbatim>\<open>Users\<close> puts it at start-up.\<close>

definition Users_self :: "World \<Rightarrow> User" where
  "Users_self w =
     (case Users_users w (Users_self_id w) of
        Some u \<Rightarrow> u
      | None \<Rightarrow> \<lparr>user_name = [], user_rooms = Map.empty, user_roomData = Map.empty\<rparr>)"

text \<open>
  Modelled from the spec: \<^verbatim>\<open>Users.get\<close> and \<^verbatim>\<open>Users.add\<close> belong to a module that is
  not part of the sources. By the spec a user is "added/looked up in the global user
  registry" under its normalized identifier, and there is "no user created when the
  identifier cannot be normalized". \<open>Users_get\<close> looks a name up and adds nothing;
  \<open>Users_add\<close> returns the registered user of that identifier or registers a new one
  under the name given, and returns nothing for an identifier that normalizes to the
  empty string. A field that is missing from the line (\<^verbatim>\<open>undefined\<close>) is \<open>None\<close>.
\<close>

definition Users_get :: "World \<Rightarrow> string option \<Rightarrow> (string \<times> User) option" where
  "Users_get w name =
     (case name of
        None \<Rightarrow> None
      | Some n \<Rightarrow> (case Users_users w (toId n) of None \<Rightarrow> None | Some u \<Rightarrow> Some (toId n, u)))"

definition Users_add :: "World \<Rightarrow> string option \<Rightarrow> (string \<times> User) option \<times> World" where
  "Users_add w name =
     (case name of
        None \<Rightarrow> (None, w)
      | Some n \<Rightarrow>
          if toId n = [] then (None, w)
          else (case Users_users w (toId n) of
                  Some u \<Rightarrow> (Some (toId n, u), w)
                | None \<Rightarrow>
                    (let u = \<lparr>user_name = n, user_rooms = Map.empty, user_roomData = Map.empty\<rparr>
                     in (Some (toId n, u), w\<lparr>Users_users := (Users_users w)(toId n \<mapsto> u)\<rparr>))))"


section \<open>Context: running a command\<close>

record Context =
  ctx_target :: string
  ctx_room :: place
  ctx_user :: string
  ctx_user_name :: string
  ctx_command :: string
  ctx_time :: js_number

text \<open>The constructor: \<^verbatim>\<open>target ? target.trim() : ''\<close> and \<^verbatim>\<open>time || Date.now()\<close>. The
  time is \<open>None\<close> when the argument is left out.\<close>

definition new_Context ::
  "Env \<Rightarrow> string \<Rightarrow> place \<Rightarrow> string \<Rightarrow> User \<Rightarrow> string \<Rightarrow> js_number option \<Rightarrow> Context" where
  "new_Context env target room uid user command time =
     \<lparr>ctx_target = (if target \<noteq> [] then trim target else []),
      ctx_room = room, ctx_user = uid, ctx_user_name = user_name user,
      ctx_command = command,
      ctx_time = (case time of
                    Some (Num t) \<Rightarrow> if t \<noteq> 0 then Num t else Num (Date_now env)
                  | _ \<Rightarrow> Num (Date_now env))\<rparr>"

text \<open>\<^verbatim>\<open>!Commands[command]\<close>: the entry is missing or the empty string.\<close>

definition falsy_entry :: "command_entry option \<Rightarrow> bool" where
  "falsy_entry e = (case e of None \<Rightarrow> True | Some (Alias a) \<Rightarrow> a = [] | Some (Handler h) \<Rightarrow> False)"

text \<open>The text logged by the \<^verbatim>\<open>catch\<close> block, after the stack.\<close>

definition additional_information :: "Env \<Rightarrow> Context \<Rightarrow> string \<Rightarrow> string \<Rightarrow> string" where
  "additional_information env this command target =
     ''Additional information:'' @ [CHR 0x0A] @
     ''Command = '' @ command @ [CHR 0x0A] @
     ''Target = '' @ target @ [CHR 0x0A] @
     ''Time = '' @ toLocaleString env (ctx_time this) @ [CHR 0x0A] @
     ''User = '' @ ctx_user_name this @ [CHR 0x0A] @
     ''Room = '' @ (case ctx_room this of In_PM u \<Rightarrow> ''in PM'' | In_room r \<Rightarrow> r)"

text \<open>The arguments of the call
  \<^verbatim>\<open>Commands[command].call(this, target, this.room, this.user, this.command, this.time)\<close>.\<close>

definition handler_args :: "Context \<Rightarrow> string \<Rightarrow> invocation" where
  "handler_args this target =
     \<lparr>inv_target = target, inv_room = ctx_room this, inv_user = ctx_user this,
      inv_command = ctx_command this, inv_time = ctx_time this\<rparr>"

text \<open>The second half of \<^verbatim>\<open>run\<close>, from \<^verbatim>\<open>typeof Commands[command] !== 'function'\<close> on:
  the call of the handler in the \<^verbatim>\<open>try\<close> block and the \<^verbatim>\<open>catch\<close> block.\<close>

definition run_handler ::
  "Env \<Rightarrow> Context \<Rightarrow> string \<Rightarrow> string \<Rightarrow> bool completion \<times> event list" where
  "run_handler env this command target =
     (case Commands env command of
        Some (Handler h) \<Rightarrow>
          (case h (handler_args this target) of
             Returns \<Rightarrow> (Normal True, [Handler_call command (handler_args this target)])
           | Throws e \<Rightarrow>
               (case e of
                  Thrown_nullish \<Rightarrow>
                    (Raised TypeError, [Handler_call command (handler_args this target)])
                | Thrown_Error stack \<Rightarrow>
                    (Normal False,
                     [Handler_call command (handler_args this target),
                      Console_log (stack @ additional_information env this command target)])
                | Thrown_other \<Rightarrow>
                    (Normal False,
                     [Handler_call command (handler_args this target),
                      Console_log (''undefined'' @
                                   additional_information env this command target)])))
      | _ \<Rightarrow> (Normal False, []))"

text \<open>\<^verbatim>\<open>run(command, target)\<close>; an argument left out is \<open>None\<close>.\<close>

definition run ::
  "Env \<Rightarrow> Context \<Rightarrow> string option \<Rightarrow> string option \<Rightarrow> bool completion \<times> event list" where
  "run env this command target =
     (case command of
        Some (c # cs) \<Rightarrow>
          (let command1 = toId (c # cs)
           in if falsy_entry (Commands env command1) then (Normal False, [])
              else (let command2 = (case Commands env command1 of
                                      Some (Alias a) \<Rightarrow> a
                                    | _ \<Rightarrow> command1)
                    in case target of
                         None \<Rightarrow> (Raised TypeError, [])
                       | Some t \<Rightarrow> run_handler env this command2 (trim t)))
      | _ \<Rightarrow> run_handler env this (ctx_command this) (ctx_target this))"

text \<open>
  Lines 237 to 247 of \<^verbatim>\<open>parseCommand\<close>: the command character is dropped, the text up to
  the first space is the command and the text after it the target, and the command is
  normalized. The result is the pair of \<^verbatim>\<open>command\<close> and \<^verbatim>\<open>target\<close>.
\<close>

definition split_command :: "string \<Rightarrow> string \<times> string" where
  "split_command message1 =
     (let message2 = substr message1 1;
          spaceIndex = indexOf message2 CHR '' ''
      in (toId (if spaceIndex \<noteq> - 1 then substr_len message2 0 spaceIndex else message2),
          if spaceIndex \<noteq> - 1 then substr message2 (spaceIndex + 1) else []))"

text \<open>\<^verbatim>\<open>parseCommand(message, room, user, time)\<close>. The value is \<open>None\<close> when it returns
  before running anything, and what \<^verbatim>\<open>run()\<close> returned otherwise.\<close>

definition parseCommand ::
  "Env \<Rightarrow> string \<Rightarrow> place \<Rightarrow> string \<Rightarrow> User \<Rightarrow> js_number option
     \<Rightarrow> bool option completion \<times> event list" where
  "parseCommand env message room uid user time =
     (if charAt (trim message) 0 \<noteq> cfg_commandCharacter (Config env) then (Normal None, [])
      else
        (case split_command (trim message) of
           (command1, target) \<Rightarrow>
             if falsy_entry (Commands env command1) then (Normal None, [])
             else
               (let command2 = (case Commands env command1 of
                                  Some (Alias a) \<Rightarrow> a
                                | _ \<Rightarrow> command1)
                in case Commands env command2 of
                     Some (Handler h) \<Rightarrow>
                       (case run env (new_Context env target room uid user command2 time)
                               None None of
                          (Normal b, evs) \<Rightarrow> (Normal (Some b), evs)
                        | (Raised e, evs) \<Rightarrow> (Raised e, evs)
                        | (Exited, evs) \<Rightarrow> (Exited, evs))
                   | _ \<Rightarrow> (Normal None, []))))"

section \<open>Moderation\<close>

definition FLOOD_MINIMUM_MESSAGES :: nat where
  "FLOOD_MINIMUM_MESSAGES = 5"

definition FLOOD_MAXIMUM_TIME :: int where
  "FLOOD_MAXIMUM_TIME = 5 * 1000"

definition STRETCHING_MINIMUM :: nat where
  "STRETCHING_MINIMUM = 20"

definition CAPS_MINIMUM :: nat where
  "CAPS_MINIMUM = 30"

definition PUNISHMENT_COOLDOWN :: int where
  "PUNISHMENT_COOLDOWN = 5 * 1000"

subsection \<open>Arithmetic and comparison of JavaScript numbers\<close>

fun js_minus :: "js_number \<Rightarrow> js_number \<Rightarrow> js_number" where
  "js_minus (Num a) (Num b) = Num (a - b)"
| "js_minus a b = NaN"

fun js_times :: "js_number \<Rightarrow> js_number \<Rightarrow> js_number" where
  "js_times (Num a) (Num b) = Num (a * b)"
| "js_times a b = NaN"

fun js_less :: "js_number \<Rightarrow> js_number \<Rightarrow> bool" where
  "js_less (Num a) (Num b) = (a < b)"
| "js_less a b = False"

fun js_less_eq :: "js_number \<Rightarrow> js_number \<Rightarrow> bool" where
  "js_less_eq (Num a) (Num b) = (a \<le> b)"
| "js_less_eq a b = False"

fun js_truthy :: "js_number \<Rightarrow> bool" where
  "js_truthy (Num a) = (a \<noteq> 0)"
| "js_truthy NaN = False"

text \<open>An \<^verbatim>\<open>undefined\<close> operand of \<^verbatim>\<open>-\<close> or \<^verbatim>\<open>>=\<close> is \<open>NaN\<close>.\<close>

definition number_of :: "int option \<Rightarrow> js_number" where
  "number_of v = (case v of None \<Rightarrow> NaN | Some n \<Rightarrow> Num n)"

text \<open>The decimal text of an integer, as \<^verbatim>\<open>'' + points\<close> gives it.\<close>

function decimal_nat :: "nat \<Rightarrow> string" where
  "decimal_nat n =
     (if n < 10 then [''0123456789'' ! n]
      else decimal_nat (n div 10) @ [''0123456789'' ! (n mod 10)])"
  by pat_completeness auto
termination
  by (relation "measure (\<lambda>n. n)") auto

declare decimal_nat.simps [simp del]

definition decimal :: "int \<Rightarrow> string" where
  "decimal i = (if i < 0 then ''-'' @ decimal_nat (nat (- i)) else decimal_nat (nat i))"

subsection \<open>Array.prototype.sort\<close>

text \<open>
  \<^verbatim>\<open>sort\<close> with a comparator is stable, and a comparator's \<open>NaN\<close> counts as \<open>0\<close>. The
  model is the insertion sort that keeps equal elements in their order. (Where the
  comparator is not consistent, which takes a \<open>NaN\<close> here, JavaScript leaves the order to
  the implementation.)
\<close>

fun insert_by :: "('a \<Rightarrow> 'a \<Rightarrow> js_number) \<Rightarrow> 'a \<Rightarrow> 'a list \<Rightarrow> 'a list" where
  "insert_by cmp x [] = [x]"
| "insert_by cmp x (y # ys) =
     (if js_less (Num 0) (cmp x y) then y # insert_by cmp x ys else x # y # ys)"

definition sort_by :: "('a \<Rightarrow> 'a \<Rightarrow> js_number) \<Rightarrow> 'a list \<Rightarrow> 'a list" where
  "sort_by cmp xs = foldr (insert_by cmp) xs []"

subsection \<open>The rules\<close>

text \<open>
  \<^verbatim>\<open>message.match(/(.+)\1+/g)\<close>. At a position the group \<^verbatim>\<open>(.+)\<close> is tried from the
  longest run of characters other than line terminators down to one character, and the
  first length whose text is repeated at once matches, with as many repetitions as there
  are. The search goes on after a match, or one character further where none starts.
\<close>

function repeats :: "string \<Rightarrow> string \<Rightarrow> nat" where
  "repeats g s =
     (if g \<noteq> [] \<and> take (length g) s = g then Suc (repeats g (drop (length g) s)) else 0)"
  by pat_completeness auto
termination
proof (relation "measure (\<lambda>(g, s). length s)")
  show "wf (measure (\<lambda>(g, s). length s))"
    by simp
next
  fix g s :: string
  assume a: "g \<noteq> [] \<and> take (length g) s = g"
  then have "s \<noteq> []"
    by auto
  with a show "((g, drop (length g) s), (g, s)) \<in> measure (\<lambda>(g, s). length s)"
    by simp
qed

declare repeats.simps [simp del]

primrec try_group :: "nat \<Rightarrow> string \<Rightarrow> nat option" where
  "try_group 0 s = None"
| "try_group (Suc l) s =
     (if 1 \<le> repeats (take (Suc l) s) (drop (Suc l) s)
      then Some (Suc l * (1 + repeats (take (Suc l) s) (drop (Suc l) s)))
      else try_group l s)"

definition match_here :: "string \<Rightarrow> nat option" where
  "match_here s =
     try_group (length (takeWhile (\<lambda>c. c \<noteq> CHR 0x0A \<and> c \<noteq> CHR 0x0D) s)) s"

lemma try_group_positive: "try_group l s = Some n \<Longrightarrow> 0 < n"
  by (induction l) (auto split: if_splits)

function stretch_matches :: "string \<Rightarrow> string list" where
  "stretch_matches s =
     (if s = [] then []
      else (case match_here s of
              Some n \<Rightarrow> take n s # stretch_matches (drop n s)
            | None \<Rightarrow> stretch_matches (tl s)))"
  by pat_completeness auto
termination
proof (relation "measure length")
  show "wf (measure length)"
    by simp
next
  fix s :: string
  assume "s \<noteq> []" and "match_here s = None"
  then show "(tl s, s) \<in> measure length"
    by simp
next
  fix s :: string and n :: nat
  assume "s \<noteq> []" and "match_here s = Some n"
  then show "(drop n s, s) \<in> measure length"
    using try_group_positive [of _ s n] by (auto simp: match_here_def)
qed

declare stretch_matches.simps [simp del]

text \<open>The stretching rule: the longest match has \<^verbatim>\<open>STRETCHING_MINIMUM\<close> characters.\<close>

definition stretching :: "string \<Rightarrow> bool" where
  "stretching message =
     (case sort_by (\<lambda>a b. Num (int (length b) - int (length a))) (stretch_matches message) of
        [] \<Rightarrow> False
      | longest # others \<Rightarrow> STRETCHING_MINIMUM \<le> length longest)"

text \<open>The caps rule: \<^verbatim>\<open>message.match(/[A-Z]/g)\<close> has \<^verbatim>\<open>CAPS_MINIMUM\<close> elements.\<close>

definition caps :: "string \<Rightarrow> bool" where
  "caps message =
     (CAPS_MINIMUM \<le> length (filter (\<lambda>c. c \<in> set ''ABCDEFGHIJKLMNOPQRSTUVWXYZ'') message))"

text \<open>The flood rule: \<^verbatim>\<open>data.messages.length >= FLOOD_MINIMUM_MESSAGES && time -
  data.messages[FLOOD_MINIMUM_MESSAGES - 1].time <= FLOOD_MAXIMUM_TIME\<close>.\<close>

definition flooding :: "moderation_data \<Rightarrow> js_number \<Rightarrow> bool" where
  "flooding data time =
     (FLOOD_MINIMUM_MESSAGES \<le> length (md_messages data) \<and>
      js_less_eq (js_minus time (snd (md_messages data ! (FLOOD_MINIMUM_MESSAGES - 1))))
        (Num FLOOD_MAXIMUM_TIME))"

text \<open>The cooldown: \<^verbatim>\<open>data.lastAction && time - data.lastAction < PUNISHMENT_COOLDOWN\<close>.\<close>

definition cooldown :: "moderation_data \<Rightarrow> js_number \<Rightarrow> bool" where
  "cooldown data time =
     (js_truthy (md_lastAction data) \<and>
      js_less (js_minus time (md_lastAction data)) (Num PUNISHMENT_COOLDOWN))"

definition flooding_punishment :: punishment where
  "flooding_punishment =
     \<lparr>p_action = ''mute'', p_rule = ''flooding'', p_reason = ''please do not flood the chat''\<rparr>"

definition stretching_punishment :: punishment where
  "stretching_punishment =
     \<lparr>p_action = ''verbalwarn'', p_rule = ''stretching'', p_reason = ''please do not stretch''\<rparr>"

definition caps_punishment :: punishment where
  "caps_punishment =
     \<lparr>p_action = ''verbalwarn'', p_rule = ''caps'', p_reason = ''please do not abuse caps''\<rparr>"

text \<open>The array \<^verbatim>\<open>punishments\<close> before it is sorted: what the hook
  \<^verbatim>\<open>Config.moderate\<close> returns when it is a function and returns an array, then the flood,
  stretching and caps rules.\<close>

definition hook_punishments ::
  "Env \<Rightarrow> string \<Rightarrow> string \<Rightarrow> string \<Rightarrow> js_number \<Rightarrow> punishment list" where
  "hook_punishments env message room uid time =
     (case cfg_moderate (Config env) of
        None \<Rightarrow> []
      | Some hook \<Rightarrow> (case hook message room uid time of None \<Rightarrow> [] | Some result \<Rightarrow> result))"

definition punishments_of ::
  "Env \<Rightarrow> string \<Rightarrow> string \<Rightarrow> string \<Rightarrow> js_number \<Rightarrow> moderation_data \<Rightarrow> punishment list" where
  "punishments_of env message room uid time data =
     hook_punishments env message room uid time @
     (if flooding data time then [flooding_punishment] else []) @
     (if stretching message then [stretching_punishment] else []) @
     (if caps message then [caps_punishment] else [])"

text \<open>The comparator of the sort:
  \<^verbatim>\<open>Config.punishmentPoints[b.action] - Config.punishmentPoints[a.action]\<close>.\<close>

definition by_points :: "(string \<rightharpoonup> int) \<Rightarrow> punishment \<Rightarrow> punishment \<Rightarrow> js_number" where
  "by_points punishmentPoints a b =
     js_minus (number_of (punishmentPoints (p_action b))) (number_of (punishmentPoints (p_action a)))"

text \<open>\<^verbatim>\<open>message.trim().replace(whitespaceRegex, '').replace(nullCharactersRegex, '')\<close>.\<close>

definition normalize_message :: "string \<Rightarrow> string" where
  "normalize_message message =
     filter (\<lambda>c. c \<noteq> CHR 0x00) (filter (\<lambda>c. \<not> is_white_space c) (trim message))"

definition allowed_in :: "allow_moderation \<Rightarrow> string \<Rightarrow> bool" where
  "allowed_in allowModeration room =
     (case allowModeration of
        Allow_flag b \<Rightarrow> b
      | Allow_rooms m \<Rightarrow> (case m room of None \<Rightarrow> False | Some b \<Rightarrow> b))"

text \<open>
  The end of \<^verbatim>\<open>moderate\<close>, from \<^verbatim>\<open>let punishment = punishments[0]\<close> on.
  \<open>reason_for\<close> is the reason: the one that \<^verbatim>\<open>Config.punishmentReasons\<close> gives for the
  rule, or the one of the punishment. \<open>escalate\<close> is the step on the points (lines 376 to
  382): it returns the record with its new points, and the action. \<open>punish\<close> is the whole,
  with the one call of \<^verbatim>\<open>room.say\<close>; it returns the record as it leaves it.
\<close>

definition reason_for :: "Env \<Rightarrow> punishment \<Rightarrow> string" where
  "reason_for env punishment =
     (case cfg_punishmentReasons (Config env) of
        None \<Rightarrow> p_reason punishment
      | Some reasons \<Rightarrow>
          (case reasons (p_rule punishment) of
             None \<Rightarrow> p_reason punishment
           | Some r \<Rightarrow> if r \<noteq> [] then r else p_reason punishment))"

definition escalate ::
  "(string \<rightharpoonup> int) \<Rightarrow> (string \<rightharpoonup> string) \<Rightarrow> moderation_data \<Rightarrow> punishment
     \<Rightarrow> moderation_data \<times> string" where
  "escalate punishmentPoints punishmentActions data punishment =
     (let points = punishmentPoints (p_action punishment);
          repeated = (case (md_points data, points) of
                        (Some d, Some p) \<Rightarrow> p \<le> d
                      | _ \<Rightarrow> False);
          data1 = (if repeated then data\<lparr>md_points := map_option (\<lambda>d. d + 1) (md_points data)\<rparr>
                   else data\<lparr>md_points := points\<rparr>);
          action = (if repeated
                    then (case md_points data1 of
                            None \<Rightarrow> p_action punishment
                          | Some n \<Rightarrow>
                              (case punishmentActions (decimal n) of
                                 None \<Rightarrow> p_action punishment
                               | Some a \<Rightarrow> if a \<noteq> [] then a else p_action punishment))
                    else p_action punishment)
      in (data1, action))"

definition punish ::
  "Env \<Rightarrow> User \<Rightarrow> (string \<rightharpoonup> int) \<Rightarrow> (string \<rightharpoonup> string) \<Rightarrow> string \<Rightarrow> User \<Rightarrow> js_number
     \<Rightarrow> moderation_data \<Rightarrow> punishment \<Rightarrow> moderation_data \<times> event list" where
  "punish env self punishmentPoints punishmentActions room user time data punishment =
     (case escalate punishmentPoints punishmentActions data punishment of
        (data1, action) \<Rightarrow>
          if action = ''verbalwarn''
          then (data1,
                [Room_say (In_room room)
                   (user_name user @ '', '' @ reason_for env punishment)])
          else (let action1 = (if action = ''roomban'' \<and> \<not> hasRank env self room ''@''
                               then ''hourmute'' else action)
                in (data1\<lparr>md_lastAction := time\<rparr>,
                    [Room_say (In_room room)
                       (''/'' @ action1 @ '' '' @ user_name user @ '', '' @
                        reason_for env punishment)])))"

text \<open>The record of a user for a room, as \<^verbatim>\<open>moderate\<close> fetches it: the one stored, or a
  new one.\<close>

definition room_data :: "User \<Rightarrow> string \<Rightarrow> moderation_data" where
  "room_data user room =
     (case user_roomData user room of
        None \<Rightarrow> \<lparr>md_messages = [], md_points = Some 0, md_lastAction = Num 0\<rparr>
      | Some d \<Rightarrow> d)"

text \<open>\<^verbatim>\<open>moderate(message, room, user, time)\<close>: the user as it leaves it (only its
  \<^verbatim>\<open>roomData\<close> changes) and the calls of \<^verbatim>\<open>room.say\<close>. \<open>self\<close> is \<^verbatim>\<open>Users.self\<close>.\<close>

definition moderate ::
  "Env \<Rightarrow> User \<Rightarrow> string \<Rightarrow> string \<Rightarrow> string \<Rightarrow> User \<Rightarrow> js_number \<Rightarrow> User \<times> event list" where
  "moderate env self message room uid user time =
     (if \<not> hasRank env self room ''%'' then (user, [])
      else if \<not> allowed_in (cfg_allowModeration (Config env)) room then (user, [])
      else (case (cfg_punishmentPoints (Config env), cfg_punishmentActions (Config env)) of
              (Some punishmentPoints, Some punishmentActions) \<Rightarrow>
                (let message1 = normalize_message message;
                     data0 = room_data user room;
                     data = data0\<lparr>md_messages := (message1, time) # md_messages data0\<rparr>
                 in if cooldown data time
                    then (user\<lparr>user_roomData := (user_roomData user)(room \<mapsto> data)\<rparr>, [])
                    else (case sort_by (by_points punishmentPoints)
                                 (punishments_of env message1 room uid time data) of
                            [] \<Rightarrow> (user\<lparr>user_roomData := (user_roomData user)(room \<mapsto> data)\<rparr>, [])
                          | punishment # others \<Rightarrow>
                              (case punish env self punishmentPoints punishmentActions room user
                                      time data punishment of
                                 (data1, evs) \<Rightarrow>
                                   (user\<lparr>user_roomData := (user_roomData user)(room \<mapsto> data1)\<rparr>,
                                    evs))))
            | _ \<Rightarrow> (user, [])))"



section \<open>The protocol decoder: parse\<close>

text \<open>What one call of \<^verbatim>\<open>parse\<close> leaves: the world, the calls it made, and how it
  ended.\<close>

record Outcome =
  world_after :: World
  events :: "event list"
  ending :: "unit completion"

definition completed :: "World \<Rightarrow> event list \<Rightarrow> Outcome" where
  "completed w evs = \<lparr>world_after = w, events = evs, ending = Normal ()\<rparr>"

text \<open>\<^verbatim>\<open>splitMessage[i]\<close>, \<open>None\<close> for \<^verbatim>\<open>undefined\<close>.\<close>

definition field :: "string list \<Rightarrow> nat \<Rightarrow> string option" where
  "field splitMessage i = (if i < length splitMessage then Some (splitMessage ! i) else None)"

definition set_user :: "string \<Rightarrow> User \<Rightarrow> World \<Rightarrow> World" where
  "set_user uid user w = w\<lparr>Users_users := (Users_users w)(uid \<mapsto> user)\<rparr>"

text \<open>
  The loop of the \<^verbatim>\<open>users\<close> case over the entries after the first. An entry whose name
  \<^verbatim>\<open>Users.add\<close> does not accept leaves \<^verbatim>\<open>user\<close> undefined, and \<^verbatim>\<open>user.rooms\<close> raises a
  \<^verbatim>\<open>TypeError\<close>; the loop stops there. (The entry that \<^verbatim>\<open>room.users.set\<close> has just made
  under the key \<^verbatim>\<open>undefined\<close> is not kept in the model.)
\<close>

fun users_loop :: "string list \<Rightarrow> string \<Rightarrow> World \<Rightarrow> World \<times> unit completion" where
  "users_loop [] room w = (w, Normal ())"
| "users_loop (entry # entries) room w =
     (case Users_add w (Some (substr entry 1)) of
        (None, w1) \<Rightarrow> (w1, Raised TypeError)
      | (Some (uid, user), w1) \<Rightarrow>
          (let rank = charAt entry 0;
               r = Rooms_rooms w1 room;
               w2 = w1\<lparr>Rooms_rooms := (Rooms_rooms w1)(room := r\<lparr>room_users := (room_users r)(uid \<mapsto> rank)\<rparr>)\<rparr>;
               w3 = set_user uid (user\<lparr>user_rooms := (user_rooms user)(room \<mapsto> rank)\<rparr>) w2
           in users_loop entries room w3))"

text \<open>
  The common body of the cases \<^verbatim>\<open>c\<close> and \<^verbatim>\<open>c:\<close>: \<open>name\<close> is the field of the speaker,
  \<open>body\<close> the fields of the message and \<open>time\<close> the time of the line.
\<close>

definition chat ::
  "Env \<Rightarrow> World \<Rightarrow> string \<Rightarrow> string option \<Rightarrow> string list \<Rightarrow> js_number \<Rightarrow> Outcome" where
  "chat env w room name body time =
     (case (name, Users_get w name) of
        (Some n, Some (uid, user)) \<Rightarrow>
          (let rank = charAt n 0;
               user1 = (if user_rooms user room \<noteq> Some rank
                        then user\<lparr>user_rooms := (user_rooms user)(room \<mapsto> rank)\<rparr> else user);
               w1 = set_user uid user1 w;
               message = join body ''|''
           in if uid = Users_self_id w
              then (case room_listeners (Rooms_rooms w1 room) (toId message) of
                      None \<Rightarrow> completed w1 []
                    | Some listener \<Rightarrow>
                        (case listener of
                           Returns \<Rightarrow> completed w1 [Listener_call room (toId message)]
                         | Throws e \<Rightarrow>
                             \<lparr>world_after = w1, events = [Listener_call room (toId message)],
                              ending = Raised (Uncaught e)\<rparr>))
              else (case parseCommand env message (In_room room) uid user1 (Some time) of
                      (Normal v, evs) \<Rightarrow>
                        if \<not> hasRank env user1 room ''+''
                        then (case moderate env (Users_self w1) message room uid user1 time of
                                (user2, evs2) \<Rightarrow>
                                  completed (set_user uid user2 w1)
                                    (Call_parseCommand message # evs @ Call_moderate message # evs2))
                        else completed w1 (Call_parseCommand message # evs)
                    | (Raised e, evs) \<Rightarrow>
                        \<lparr>world_after = w1, events = Call_parseCommand message # evs,
                         ending = Raised e\<rparr>
                    | (Exited, evs) \<Rightarrow>
                        \<lparr>world_after = w1, events = Call_parseCommand message # evs,
                         ending = Exited\<rparr>))
      | _ \<Rightarrow> completed w [])"

text \<open>The \<^verbatim>\<open>switch\<close> of \<^verbatim>\<open>parse\<close>.\<close>

definition dispatch :: "Env \<Rightarrow> World \<Rightarrow> string \<Rightarrow> string option \<Rightarrow> string list \<Rightarrow> Outcome" where
  "dispatch env w room messageType splitMessage =
     (if messageType = Some ''challstr'' then
        completed (w\<lparr>Client_challengeKeyId := field splitMessage 0,
                Client_challenge := field splitMessage 1\<rparr>) [Client_login]
      else if messageType = Some ''updateuser'' then
        (if field splitMessage 0 \<noteq> Some (cfg_username (Config env)) then completed w []
         else if field splitMessage 1 \<noteq> Some ''1''
         then \<lparr>world_after = w, events = [Console_log ''Failed to log in'', Process_exit],
               ending = Exited\<rparr>
         else (case cfg_rooms (Config env) of
                 Rooms_unset \<Rightarrow> completed w [Console_log ''Successfully logged in'']
               | Rooms_not_array \<Rightarrow>
                   \<lparr>world_after = w, events = [Console_log ''Successfully logged in''],
                    ending = Raised (Error ''Config.rooms must be an array'')\<rparr>
               | Rooms_array rooms \<Rightarrow>
                   completed w (Console_log ''Successfully logged in'' #
                           map (\<lambda>r. Client_send (''|/join '' @ r)) rooms)))
      else if messageType = Some ''init'' then
        completed w [Room_onJoin room (Users_self_id w) '' '', Console_log (''Joined room: '' @ room)]
      else if messageType = Some ''noinit'' then
        completed w [Console_log (''Could not join room: '' @ room), Rooms_destroy room]
      else if messageType = Some ''deinit'' then
        completed w [Rooms_destroy room]
      else if messageType = Some ''users'' then
        (case field splitMessage 0 of
           None \<Rightarrow> \<lparr>world_after = w, events = [], ending = Raised TypeError\<rparr>
         | Some snapshot \<Rightarrow>
             if snapshot = ''0'' then completed w []
             else (case users_loop (drop 1 (split_str snapshot CHR '','')) room w of
                     (w1, e) \<Rightarrow> \<lparr>world_after = w1, events = [], ending = e\<rparr>))
      else if messageType = Some ''formats'' then
        (case parseFormats ((parser w)\<lparr>formatsList := splitMessage\<rparr>) of
           (this, cleared) \<Rightarrow> completed (w\<lparr>parser := this\<rparr>) (if cleared then [FormatCache_clear] else []))
      else if messageType = Some ''J'' \<or> messageType = Some ''j'' then
        (case (field splitMessage 0, Users_add w (field splitMessage 0)) of
           (Some n, Some (uid, user), w1) \<Rightarrow> completed w1 [Room_onJoin room uid (charAt n 0)]
         | (_, _, w1) \<Rightarrow> completed w1 [])
      else if messageType = Some ''L'' \<or> messageType = Some ''l'' then
        (case Users_add w (field splitMessage 0) of
           (Some (uid, user), w1) \<Rightarrow> completed w1 [Room_onLeave room uid]
         | (None, w1) \<Rightarrow> completed w1 [])
      else if messageType = Some ''N'' \<or> messageType = Some ''n'' then
        (case (field splitMessage 0, Users_add w (field splitMessage 1)) of
           (Some n, Some (uid, user), w1) \<Rightarrow> completed w1 [Room_onRename room uid n]
         | (_, _, w1) \<Rightarrow> completed w1 [])
      else if messageType = Some ''c'' then
        chat env w room (field splitMessage 0) (drop 1 splitMessage) (Num (Date_now env))
      else if messageType = Some ''c:'' then
        chat env w room (field splitMessage 1) (drop 2 splitMessage)
          (js_times (case field splitMessage 0 of
                       None \<Rightarrow> NaN
                     | Some seconds \<Rightarrow> parseInt seconds None) (Num 1000))
      else if messageType = Some ''pm'' then
        (case Users_add w (field splitMessage 0) of
           (Some (uid, user), w1) \<Rightarrow>
             if uid = Users_self_id w1 then completed w1 []
             else (case parseCommand env (join (drop 2 splitMessage) ''|'') (In_PM uid) uid user
                          None of
                     (e, evs) \<Rightarrow>
                       \<lparr>world_after = w1, events = evs,
                        ending = (case e of Normal v \<Rightarrow> Normal () | Raised x \<Rightarrow> Raised x
                                  | Exited \<Rightarrow> Exited)\<rparr>)
         | (None, w1) \<Rightarrow> completed w1 [])
      else if messageType = Some ''raw'' then
        (let message = join splitMessage ''|''
         in if str_includes message (''<div class='' @ [CHR 0x22] @ ''broadcast-red'' @ [CHR 0x22] @ ''>'') \<and>
               str_includes message ''The server is restarting soon.''
            then completed (w\<lparr>Client_lockdown := True\<rparr>) []
            else if str_includes message (''<div class='' @ [CHR 0x22] @ ''broadcast-green'' @ [CHR 0x22] @ ''>'') \<and>
                    str_includes message ''The server restart was canceled.''
            then completed (w\<lparr>Client_lockdown := False\<rparr>) []
            else completed w [])
      else completed w [])"

text \<open>The hook \<^verbatim>\<open>Config.parseMessage\<close> is a function and returns \<^verbatim>\<open>false\<close>.\<close>

definition vetoed :: "Env \<Rightarrow> string \<Rightarrow> string option \<Rightarrow> string list \<Rightarrow> bool" where
  "vetoed env room messageType splitMessage =
     (case cfg_parseMessage (Config env) of
        None \<Rightarrow> False
      | Some hook \<Rightarrow> hook room messageType splitMessage)"

text \<open>
  \<^verbatim>\<open>parse(message, room)\<close>: the line is split at \<^verbatim>\<open>|\<close>, the piece before the first bar is
  dropped, the next is the type and the rest are the fields; the hook of the
  configuration may veto the line before the \<^verbatim>\<open>switch\<close>.
\<close>

definition parse :: "Env \<Rightarrow> World \<Rightarrow> string \<Rightarrow> string \<Rightarrow> Outcome" where
  "parse env w message room =
     (let splitMessage0 = drop 1 (split_str message CHR ''|'');
          messageType = field splitMessage0 0;
          splitMessage = drop 1 splitMessage0
      in if vetoed env room messageType splitMessage then completed w []
         else dispatch env w room messageType splitMessage)"

text \<open>The decoder over the lines of a room, one call of \<^verbatim>\<open>parse\<close> per line, each on the
  world the line before has left: the calls made for each line.\<close>

fun parse_all :: "Env \<Rightarrow> World \<Rightarrow> string \<Rightarrow> string list \<Rightarrow> event list list" where
  "parse_all env w room [] = []"
| "parse_all env w room (line # lines) =
     events (parse env w line room) #
     parse_all env (world_after (parse env w line room)) room lines"

section \<open>A sample installation\<close>

text \<open>
  A configuration, a command table, users and a room on which the properties below are
  evaluated. The points and actions are those of the example configuration of the bot;
  \<open>demo_hasRank\<close> orders the ranks as the chat server does.
\<close>

definition demo_Config :: Config where
  "demo_Config =
     \<lparr>cfg_username = ''bot'', cfg_commandCharacter = ''.'',
      cfg_rooms = Rooms_array [''lobby'', ''help''],
      cfg_parseMessage = None, cfg_moderate = None,
      cfg_allowModeration = Allow_flag True,
      cfg_punishmentPoints =
        Some [''verbalwarn'' \<mapsto> 0, ''warn'' \<mapsto> 1, ''mute'' \<mapsto> 2, ''hourmute'' \<mapsto> 3,
              ''roomban'' \<mapsto> 4],
      cfg_punishmentActions =
        Some [''1'' \<mapsto> ''verbalwarn'', ''2'' \<mapsto> ''warn'', ''3'' \<mapsto> ''mute'',
              ''4'' \<mapsto> ''hourmute'', ''5'' \<mapsto> ''roomban''],
      cfg_punishmentReasons = None\<rparr>"

definition demo_rank :: "string \<Rightarrow> nat" where
  "demo_rank r = (case position r ['' '', ''+'', ''%'', ''@'', ''#''] of None \<Rightarrow> 0 | Some i \<Rightarrow> i)"

definition demo_hasRank :: "User \<Rightarrow> string \<Rightarrow> string \<Rightarrow> bool" where
  "demo_hasRank user room rank =
     (case user_rooms user room of None \<Rightarrow> False | Some r \<Rightarrow> demo_rank rank \<le> demo_rank r)"

definition demo_Env :: Env where
  "demo_Env =
     \<lparr>Config = demo_Config,
      Commands = [''ping'' \<mapsto> Handler (\<lambda>args. Returns), ''p'' \<mapsto> Alias ''ping'',
                  ''pp'' \<mapsto> Alias ''p'',
                  ''crash'' \<mapsto> Handler (\<lambda>args. Throws Thrown_nullish)],
      hasRank = demo_hasRank, Date_now = 1000000, toLocaleString = (\<lambda>t. ''now'')\<rparr>"

definition demo_bot :: User where
  "demo_bot = \<lparr>user_name = ''Bot'', user_rooms = [''lobby'' \<mapsto> ''@''],
               user_roomData = Map.empty\<rparr>"

definition demo_alice :: User where
  "demo_alice = \<lparr>user_name = ''Alice'', user_rooms = [''lobby'' \<mapsto> ''+''],
                 user_roomData = Map.empty\<rparr>"

definition demo_dave :: User where
  "demo_dave = \<lparr>user_name = ''Dave'', user_rooms = [''lobby'' \<mapsto> '' ''],
                user_roomData = Map.empty\<rparr>"

definition demo_lobby :: Room where
  "demo_lobby = \<lparr>room_users = [''bot'' \<mapsto> ''@'', ''alice'' \<mapsto> ''+'', ''dave'' \<mapsto> '' ''],
                 room_listeners = [''hellothere'' \<mapsto> Returns]\<rparr>"

definition demo_World :: World where
  "demo_World =
     \<lparr>Users_users = [''bot'' \<mapsto> demo_bot, ''alice'' \<mapsto> demo_alice, ''dave'' \<mapsto> demo_dave],
      Users_self_id = ''bot'',
      Rooms_rooms = (\<lambda>r. demo_lobby),
      Client_challengeKeyId = None, Client_challenge = None, Client_lockdown = False,
      parser = \<lparr>formatsList = [], formatsData = Map.empty\<rparr>\<rparr>"

text \<open>A message of thirty capital letters; Dave with four messages on record, one second
  apart; and Dave after a fifth message, one second later again.\<close>

definition demo_shout :: string where
  "demo_shout = ''AAAAAAAAAAAAAAAAAAAAAAAAAAAAAA''"




section \<open>Properties of the format catalog\<close>

lemma toId_Abc: "toId ''Abc'' = ''abc''"
  by (simp add: toId_def toLowerCase_char_def)

lemma toId_Def: "toId ''Def'' = ''def''"
  by (simp add: toId_def toLowerCase_char_def)

lemma parseInt_8_hex: "parseInt ''8'' (Some 16) = Num 8"
  by (simp add: parseInt_def digit_val_def toLowerCase_char_def is_white_space_def white_space_def)

lemma parse_descriptor_Abc8:
  "parse_descriptor ''Abc,8'' sec =
     Some \<lparr>fmt_name = ''Abc'', fmt_id = ''abc'', fmt_section = sec,
           searchShow = False, challengeShow = False, tournamentShow = True\<rparr>"
  by (simp add: parse_descriptor_def lastIndexOf_def substr_def substr_len_def parseInt_8_hex
      format_entry_of_def toId_Abc)

lemma parse_descriptor_Def:
  "parse_descriptor ''Def'' sec =
     Some \<lparr>fmt_name = ''Def'', fmt_id = ''def'', fmt_section = sec,
           searchShow = True, challengeShow = True, tournamentShow = True\<rparr>"
  by (simp add: parse_descriptor_def lastIndexOf_def substr_def substr_len_def
      format_entry_of_def toId_Def)

text \<open>
  C8. \<^verbatim>\<open>parseFormats\<close> on the list \<^verbatim>\<open>["", "SectionA", "Abc,8", "Def"]\<close> replaces the
  catalog, whatever it held, by one with exactly two entries, under the identifiers
  \<open>abc\<close> and \<open>def\<close>, both in section \<open>SectionA\<close>: the entry of \<open>Abc,8\<close> is shown for
  tournaments only, the entry of \<open>Def\<close> has all three visibility flags set.
\<close>

theorem parseFormats_example:
  "formatsData (fst (parseFormats \<lparr>formatsList = ['''', ''SectionA'', ''Abc,8'', ''Def''],
                                   formatsData = old\<rparr>)) =
     [''abc'' \<mapsto> \<lparr>fmt_name = ''Abc'', fmt_id = ''abc'', fmt_section = ''SectionA'',
                  searchShow = False, challengeShow = False, tournamentShow = True\<rparr>,
      ''def'' \<mapsto> \<lparr>fmt_name = ''Def'', fmt_id = ''def'', fmt_section = ''SectionA'',
                  searchShow = True, challengeShow = True, tournamentShow = True\<rparr>]"
  by (simp add: parseFormats_def parse_descriptor_Abc8 parse_descriptor_Def charAt_def)

section \<open>Properties of the decoder: lines of the local account\<close>

lemma parse_split:
  assumes "drop 1 (split_str message CHR ''|'') = ty # rest"
  shows "parse env w message room =
           (if vetoed env room (Some ty) rest then completed w []
            else dispatch env w room (Some ty) rest)"
  using assms by (simp add: parse_def field_def)

text \<open>The cases of the \<^verbatim>\<open>switch\<close>, one message type at a time.\<close>

lemma dispatch_c:
  "dispatch env w room (Some ''c'') rest =
     chat env w room (field rest 0) (drop 1 rest) (Num (Date_now env))"
  by (simp add: dispatch_def)

lemma dispatch_c_colon:
  "dispatch env w room (Some ''c:'') rest =
     chat env w room (field rest 1) (drop 2 rest)
       (js_times (case field rest 0 of None \<Rightarrow> NaN | Some seconds \<Rightarrow> parseInt seconds None)
          (Num 1000))"
  by (simp add: dispatch_def)

lemma chat_self:
  assumes "Users_get w speaker = Some (Users_self_id w, user)"
  shows "events (chat env w room speaker body time) =
           (case room_listeners (Rooms_rooms w room) (toId (join body ''|'')) of
              None \<Rightarrow> []
            | Some listener \<Rightarrow> [Listener_call room (toId (join body ''|''))])"
  using assms
  by (cases speaker)
     (auto simp: chat_def Users_get_def completed_def set_user_def Let_def
           split: option.splits call_result.splits)

lemma toId_bot: "toId ''+bot'' = ''bot''"
  by (simp add: toId_def toLowerCase_char_def)

lemma toId_Hello_There: "toId ''Hello There'' = ''hellothere''"
  by (simp add: toId_def toLowerCase_char_def)

text \<open>
  C1. A chat line (\<open>c\<close> or \<open>c:\<close>) whose speaker resolves to the user of the local
  account: \<^verbatim>\<open>parse\<close> calls neither \<^verbatim>\<open>parseCommand\<close> nor \<^verbatim>\<open>moderate\<close>. The only call it
  can make is the call of the listener that the room holds under the normalized message,
  and it makes that call exactly when the normalized message is a key of the room's
  listener table (and the hook of the configuration has not vetoed the line); nothing
  follows it.
\<close>

theorem self_chat_only_listener:
  assumes line: "drop 1 (split_str message CHR ''|'') = ty # rest"
    and kind: "ty = ''c'' \<and> speaker = field rest 0 \<and> body = drop 1 rest \<or>
               ty = ''c:'' \<and> speaker = field rest 1 \<and> body = drop 2 rest"
    and self: "Users_get w speaker = Some (Users_self_id w, user)"
  shows "events (parse env w message room) =
           (if vetoed env room (Some ty) rest then []
            else (case room_listeners (Rooms_rooms w room) (toId (join body ''|'')) of
                    None \<Rightarrow> []
                  | Some listener \<Rightarrow> [Listener_call room (toId (join body ''|''))])) \<and>
         (\<forall>m. Call_parseCommand m \<notin> set (events (parse env w message room))) \<and>
         (\<forall>m. Call_moderate m \<notin> set (events (parse env w message room)))"
proof -
  from kind
  have "\<exists>time. dispatch env w room (Some ty) rest = chat env w room speaker body time"
  proof
    assume "ty = ''c'' \<and> speaker = field rest 0 \<and> body = drop 1 rest"
    then show ?thesis by (simp only: dispatch_c) blast
  next
    assume "ty = ''c:'' \<and> speaker = field rest 1 \<and> body = drop 2 rest"
    then show ?thesis by (simp only: dispatch_c_colon) blast
  qed
  then obtain time where
    d: "dispatch env w room (Some ty) rest = chat env w room speaker body time"
    by blast
  have e: "events (parse env w message room) =
           (if vetoed env room (Some ty) rest then []
            else (case room_listeners (Rooms_rooms w room) (toId (join body ''|'')) of
                    None \<Rightarrow> []
                  | Some listener \<Rightarrow> [Listener_call room (toId (join body ''|''))]))"
    by (simp add: parse_split [OF line] d chat_self [OF self] completed_def)
  show ?thesis
    unfolding e by (simp split: option.splits)
qed

theorem self_chat_only_listener_witness:
  "events (parse demo_Env demo_World ''|c|+bot|Hello There'' ''lobby'') =
     [Listener_call ''lobby'' ''hellothere''] \<and>
   Call_parseCommand ''Hello There''
     \<notin> set (events (parse demo_Env demo_World ''|c|+bot|Hello There'' ''lobby'')) \<and>
   Call_moderate ''Hello There''
     \<notin> set (events (parse demo_Env demo_World ''|c|+bot|Hello There'' ''lobby''))"
proof -
  have line: "drop 1 (split_str ''|c|+bot|Hello There'' CHR ''|'') =
                ''c'' # [''+bot'', ''Hello There'']"
    by simp
  have kind: "''c'' = ''c'' \<and> Some ''+bot'' = field [''+bot'', ''Hello There''] 0 \<and>
                [''Hello There''] = drop 1 [''+bot'', ''Hello There''] \<or>
              ''c'' = ''c:'' \<and> Some ''+bot'' = field [''+bot'', ''Hello There''] 1 \<and>
                [''Hello There''] = drop 2 [''+bot'', ''Hello There'']"
    by (simp add: field_def)
  have self: "Users_get demo_World (Some ''+bot'') = Some (Users_self_id demo_World, demo_bot)"
    by (simp add: Users_get_def demo_World_def toId_bot)
  show ?thesis
    using self_chat_only_listener [OF line kind self, of demo_Env "''lobby''"]
    by (simp add: vetoed_def demo_Env_def demo_Config_def demo_World_def demo_lobby_def
        toId_Hello_There)
qed

section \<open>Properties of Context.run and of command resolution\<close>

lemma run_handler_calls:
  "Commands env command = Some (Handler h) \<Longrightarrow>
   \<exists>r evs. run_handler env this command target =
             (r, Handler_call command (handler_args this target) # evs)"
  by (auto simp: run_handler_def split: call_result.splits thrown.splits)

lemma run_handler_Returns:
  "Commands env command = Some (Handler h) \<Longrightarrow> h (handler_args this target) = Returns \<Longrightarrow>
   run_handler env this command target =
     (Normal True, [Handler_call command (handler_args this target)])"
  by (simp add: run_handler_def)

text \<open>A handler that returns makes \<^verbatim>\<open>run()\<close> return \<^verbatim>\<open>true\<close>; a handler that throws an
  \<^verbatim>\<open>Error\<close> makes it return \<^verbatim>\<open>false\<close>, after one line of log that holds the stack, the
  command, the target, the formatted time, the name of the user and the room.\<close>

lemma run_returns_true:
  assumes "Commands env (ctx_command this) = Some (Handler h)"
    and "h (handler_args this (ctx_target this)) = Returns"
  shows "run env this None None =
           (Normal True, [Handler_call (ctx_command this) (handler_args this (ctx_target this))])"
  using assms by (simp add: run_def run_handler_def)

lemma run_contains_Error:
  assumes "Commands env (ctx_command this) = Some (Handler h)"
    and "h (handler_args this (ctx_target this)) = Throws (Thrown_Error stack)"
  shows "run env this None None =
           (Normal False,
            [Handler_call (ctx_command this) (handler_args this (ctx_target this)),
             Console_log
               (stack @ ''Additional information:'' @ [CHR 0x0A] @
                ''Command = '' @ ctx_command this @ [CHR 0x0A] @
                ''Target = '' @ ctx_target this @ [CHR 0x0A] @
                ''Time = '' @ toLocaleString env (ctx_time this) @ [CHR 0x0A] @
                ''User = '' @ ctx_user_name this @ [CHR 0x0A] @
                ''Room = '' @ (case ctx_room this of In_PM u \<Rightarrow> ''in PM'' | In_room r \<Rightarrow> r))])"
  using assms by (simp add: run_def run_handler_def additional_information_def)

text \<open>
  C2, at the input where it fails. A handler that throws \<^verbatim>\<open>null\<close> or \<^verbatim>\<open>undefined\<close>: the
  \<^verbatim>\<open>catch\<close> block of \<^verbatim>\<open>run\<close> reads \<^verbatim>\<open>e.stack\<close>, which raises a \<^verbatim>\<open>TypeError\<close> inside the
  block. \<^verbatim>\<open>run()\<close> does not return \<^verbatim>\<open>false\<close> and logs nothing: the exception leaves it,
  after the call of the handler.
\<close>

theorem run_null_throw_escapes:
  assumes "Commands env (ctx_command this) = Some (Handler h)"
    and "h (handler_args this (ctx_target this)) = Throws Thrown_nullish"
  shows "run env this None None =
           (Raised TypeError,
            [Handler_call (ctx_command this) (handler_args this (ctx_target this))])"
  using assms by (simp add: run_def run_handler_def)

theorem run_null_throw_escapes_witness:
  "run demo_Env
     (new_Context demo_Env [] (In_room ''lobby'') ''alice'' demo_alice ''crash'' None)
     None None =
   (Raised TypeError,
    [Handler_call ''crash''
       \<lparr>inv_target = [], inv_room = In_room ''lobby'', inv_user = ''alice'',
        inv_command = ''crash'', inv_time = Num 1000000\<rparr>])"
  using run_null_throw_escapes
          [of demo_Env
              "new_Context demo_Env [] (In_room ''lobby'') ''alice'' demo_alice ''crash'' None"
              "\<lambda>args. Throws Thrown_nullish"]
  by (simp add: demo_Env_def new_Context_def handler_args_def)

lemma toId_p: "toId ''p'' = ''p''"
  by (simp add: toId_def toLowerCase_char_def)

lemma toId_pp: "toId ''pp'' = ''pp''"
  by (simp add: toId_def toLowerCase_char_def)

lemma toId_ping: "toId ''ping'' = ''ping''"
  by (simp add: toId_def toLowerCase_char_def)

lemma trim_hello: "trim ''hello'' = ''hello''"
  by (simp add: trim_def is_white_space_def white_space_def)

lemma trim_p_hello: "trim ''.p hello'' = ''.p hello''"
  by (simp add: trim_def is_white_space_def white_space_def)

lemma trim_pp_hello: "trim ''.pp hello'' = ''.pp hello''"
  by (simp add: trim_def is_white_space_def white_space_def)

text \<open>
  C5. One level of alias. The entry of the normalized command is a non-empty string
  \<open>a\<close>. If the entry of \<open>a\<close> is a handler, \<^verbatim>\<open>parseCommand\<close> calls it, under the key \<open>a\<close>
  and with the trimmed target, and returns \<^verbatim>\<open>true\<close> when the handler returns; so does
  \<^verbatim>\<open>run(command, target)\<close>. If the entry of \<open>a\<close> is a string again, \<^verbatim>\<open>parseCommand\<close>
  returns without a call and without an exception, and \<^verbatim>\<open>run(command, target)\<close> returns
  \<^verbatim>\<open>false\<close> in the same way.
\<close>

theorem one_level_of_alias:
  assumes al: "Commands env token = Some (Alias a)" and nonempty: "a \<noteq> []"
    and prefix: "charAt (trim message) 0 = cfg_commandCharacter (Config env)"
    and split: "split_command (trim message) = (token, target)"
    and ctx: "this = new_Context env target room uid user a time"
    and arg: "toId (c # cs) = token"
  shows "(\<forall>h. Commands env a = Some (Handler h) \<longrightarrow>
            (\<exists>r evs. parseCommand env message room uid user time =
                       (r, Handler_call a (handler_args this (ctx_target this)) # evs)) \<and>
            (h (handler_args this (ctx_target this)) = Returns \<longrightarrow>
               parseCommand env message room uid user time =
                 (Normal (Some True), [Handler_call a (handler_args this (ctx_target this))])) \<and>
            (\<exists>r evs. run env that (Some (c # cs)) (Some t) =
                       (r, Handler_call a (handler_args that (trim t)) # evs)) \<and>
            (h (handler_args that (trim t)) = Returns \<longrightarrow>
               run env that (Some (c # cs)) (Some t) =
                 (Normal True, [Handler_call a (handler_args that (trim t))]))) \<and>
         (\<forall>b. Commands env a = Some (Alias b) \<longrightarrow>
            parseCommand env message room uid user time = (Normal None, []) \<and>
            run env that (Some (c # cs)) (Some t) = (Normal False, []))"
proof (intro conjI allI impI)
  fix h assume h: "Commands env a = Some (Handler h)"
  have pc: "parseCommand env message room uid user time =
      (case run_handler env this a (ctx_target this) of
         (Normal b, evs) \<Rightarrow> (Normal (Some b), evs)
       | (Raised e, evs) \<Rightarrow> (Raised e, evs)
       | (Exited, evs) \<Rightarrow> (Exited, evs))"
    using al nonempty prefix split h ctx
    by (simp add: parseCommand_def falsy_entry_def run_def new_Context_def)
  obtain r evs where r: "run_handler env this a (ctx_target this) =
      (r, Handler_call a (handler_args this (ctx_target this)) # evs)"
    using run_handler_calls [OF h] by blast
  show "\<exists>r evs. parseCommand env message room uid user time =
                       (r, Handler_call a (handler_args this (ctx_target this)) # evs)"
    unfolding pc r by (cases r) auto
  show "parseCommand env message room uid user time =
                 (Normal (Some True), [Handler_call a (handler_args this (ctx_target this))])"
    if "h (handler_args this (ctx_target this)) = Returns"
    unfolding pc using run_handler_Returns [OF h that] by simp
  have rn: "run env that (Some (c # cs)) (Some t) = run_handler env that a (trim t)"
    using al nonempty arg by (simp add: run_def falsy_entry_def)
  show "\<exists>r evs. run env that (Some (c # cs)) (Some t) =
                       (r, Handler_call a (handler_args that (trim t)) # evs)"
    unfolding rn by (rule run_handler_calls [OF h])
  show "run env that (Some (c # cs)) (Some t) =
                 (Normal True, [Handler_call a (handler_args that (trim t))])"
    if "h (handler_args that (trim t)) = Returns"
    unfolding rn by (rule run_handler_Returns [OF h that])
next
  fix b assume b: "Commands env a = Some (Alias b)"
  show "parseCommand env message room uid user time = (Normal None, [])"
    using al nonempty prefix split b
    by (simp add: parseCommand_def falsy_entry_def)
  show "run env that (Some (c # cs)) (Some t) = (Normal False, [])"
    using al nonempty arg b by (simp add: run_def falsy_entry_def run_handler_def)
qed

theorem one_level_of_alias_witness:
  "parseCommand demo_Env ''.p hello'' (In_room ''lobby'') ''alice'' demo_alice (Some (Num 5)) =
     (Normal (Some True),
      [Handler_call ''ping''
         \<lparr>inv_target = ''hello'', inv_room = In_room ''lobby'', inv_user = ''alice'',
          inv_command = ''ping'', inv_time = Num 5\<rparr>]) \<and>
   parseCommand demo_Env ''.pp hello'' (In_room ''lobby'') ''alice'' demo_alice (Some (Num 5)) =
     (Normal None, [])"
proof -
  have s1: "split_command (trim ''.p hello'') = (''p'', ''hello'')"
    by (simp add: trim_p_hello split_command_def substr_def substr_len_def indexOf_def toId_p)
  have s2: "split_command (trim ''.pp hello'') = (''pp'', ''hello'')"
    by (simp add: trim_pp_hello split_command_def substr_def substr_len_def indexOf_def toId_pp)
  have c1: "Commands demo_Env ''p'' = Some (Alias ''ping'')"
    and c2: "Commands demo_Env ''pp'' = Some (Alias ''p'')"
    and c3: "Commands demo_Env ''ping'' = Some (Handler (\<lambda>args. Returns))"
    by (simp_all add: demo_Env_def)
  have p1: "charAt (trim ''.p hello'') 0 = cfg_commandCharacter (Config demo_Env)"
    and p2: "charAt (trim ''.pp hello'') 0 = cfg_commandCharacter (Config demo_Env)"
    by (simp_all add: trim_p_hello trim_pp_hello charAt_def demo_Env_def demo_Config_def)
  show ?thesis
    using one_level_of_alias [OF c1 _ p1 s1 refl toId_p,
            of "In_room ''lobby''" "''alice''" demo_alice "Some (Num 5)"]
          one_level_of_alias [OF c2 _ p2 s2 refl toId_pp,
            of "In_room ''lobby''" "''alice''" demo_alice "Some (Num 5)"]
          c1 c3
    by (simp add: new_Context_def handler_args_def trim_hello)
qed

text \<open>
  C10. \<^verbatim>\<open>run(command, target)\<close> with a command (a non-empty string) whose normalized form
  has an entry in the command table (a function or a non-empty string: what passes the
  test \<^verbatim>\<open>!Commands[command]\<close>) and with the target left out: \<^verbatim>\<open>target.trim()\<close> raises a
  \<^verbatim>\<open>TypeError\<close>, which leaves \<^verbatim>\<open>run\<close>. No handler has been called: the statement stands
  before the \<^verbatim>\<open>try\<close> block, which guards the call of the handler only.
\<close>

theorem run_target_omitted:
  assumes "command = c # cs"
    and "Commands env (toId command) = Some entry"
    and "entry \<noteq> Alias []"
  shows "run env this (Some command) None = (Raised TypeError, [])"
  using assms by (cases entry) (auto simp: run_def falsy_entry_def Let_def)

theorem run_target_omitted_witness:
  "run demo_Env (new_Context demo_Env [] (In_room ''lobby'') ''alice'' demo_alice ''p'' None)
     (Some ''ping'') None = (Raised TypeError, [])"
  using run_target_omitted
          [of "''ping''" "CHR ''p''" "''ing''" demo_Env "Handler (\<lambda>args. Returns)"]
  by (simp add: toId_ping demo_Env_def)

section \<open>Properties of the decoder: login, membership and unresolved users\<close>

lemma dispatch_updateuser:
  "dispatch env w room (Some ''updateuser'') rest =
     (if field rest 0 \<noteq> Some (cfg_username (Config env)) then completed w []
      else if field rest 1 \<noteq> Some ''1''
      then \<lparr>world_after = w, events = [Console_log ''Failed to log in'', Process_exit],
            ending = Exited\<rparr>
      else (case cfg_rooms (Config env) of
              Rooms_unset \<Rightarrow> completed w [Console_log ''Successfully logged in'']
            | Rooms_not_array \<Rightarrow>
                \<lparr>world_after = w, events = [Console_log ''Successfully logged in''],
                 ending = Raised (Error ''Config.rooms must be an array'')\<rparr>
            | Rooms_array rooms \<Rightarrow>
                completed w (Console_log ''Successfully logged in'' #
                        map (\<lambda>r. Client_send (''|/join '' @ r)) rooms)))"
  by (simp add: dispatch_def)

text \<open>
  C6. An \<open>updateuser\<close> line. If its first field is not the configured user name,
  \<^verbatim>\<open>parse\<close> returns and nothing has changed or been called. If the first field is the
  configured name and the second is anything but \<open>1\<close> (or is missing), the failure is
  logged and the process exits. If the second field is \<open>1\<close> and the configuration lists
  rooms, one \<^verbatim>\<open>|/join\<close> request is sent for each room of the list, in the order of the
  list, after the success is logged. (The last two assume that the hook of the
  configuration, which runs before the \<^verbatim>\<open>switch\<close>, has not vetoed the line.)
\<close>

theorem updateuser_line:
  assumes line: "drop 1 (split_str message CHR ''|'') = ''updateuser'' # rest"
  shows "(field rest 0 \<noteq> Some (cfg_username (Config env)) \<longrightarrow>
            parse env w message room = completed w []) \<and>
         (\<not> vetoed env room (Some ''updateuser'') rest \<and>
          field rest 0 = Some (cfg_username (Config env)) \<and> field rest 1 \<noteq> Some ''1'' \<longrightarrow>
            parse env w message room =
              \<lparr>world_after = w, events = [Console_log ''Failed to log in'', Process_exit],
               ending = Exited\<rparr>) \<and>
         (\<forall>rooms. \<not> vetoed env room (Some ''updateuser'') rest \<and>
            field rest 0 = Some (cfg_username (Config env)) \<and> field rest 1 = Some ''1'' \<and>
            cfg_rooms (Config env) = Rooms_array rooms \<longrightarrow>
              parse env w message room =
                completed w (Console_log ''Successfully logged in'' #
                             map (\<lambda>r. Client_send (''|/join '' @ r)) rooms))"
  by (simp add: parse_split [OF line] dispatch_updateuser)

theorem updateuser_line_witness:
  "parse demo_Env demo_World ''|updateuser|someone|1'' ''lobby'' = completed demo_World [] \<and>
   parse demo_Env demo_World ''|updateuser|bot|0'' ''lobby'' =
     \<lparr>world_after = demo_World, events = [Console_log ''Failed to log in'', Process_exit],
      ending = Exited\<rparr> \<and>
   parse demo_Env demo_World ''|updateuser|bot|1'' ''lobby'' =
     completed demo_World
       [Console_log ''Successfully logged in'', Client_send ''|/join lobby'',
        Client_send ''|/join help'']"
proof -
  have l1: "drop 1 (split_str ''|updateuser|someone|1'' CHR ''|'') = ''updateuser'' # [''someone'', ''1'']"
    and l2: "drop 1 (split_str ''|updateuser|bot|0'' CHR ''|'') = ''updateuser'' # [''bot'', ''0'']"
    and l3: "drop 1 (split_str ''|updateuser|bot|1'' CHR ''|'') = ''updateuser'' # [''bot'', ''1'']"
    by simp_all
  show ?thesis
    using updateuser_line [OF l1, where env = demo_Env and w = demo_World and room = "''lobby''"]
          updateuser_line [OF l2, where env = demo_Env and w = demo_World and room = "''lobby''"]
          updateuser_line [OF l3, where env = demo_Env and w = demo_World and room = "''lobby''"]
    by (simp add: field_def vetoed_def demo_Env_def demo_Config_def)
qed

lemma toId_alice: "toId ''@alice'' = ''alice''"
  by (simp add: toId_def toLowerCase_char_def)




lemma trim_hi: "trim ''hi'' = ''hi''"
  by (simp add: trim_def is_white_space_def white_space_def)


lemma parseCommand_hi:
  "parseCommand demo_Env ''hi'' room uid user time = (Normal None, [])"
  by (simp add: parseCommand_def trim_hi charAt_def demo_Env_def demo_Config_def)

lemma demo_not_vetoed: "\<not> vetoed demo_Env room ty rest"
  by (simp add: vetoed_def demo_Env_def demo_Config_def)

lemma demo_self: "Users_self_id demo_World = ''bot''"
  by (simp add: demo_World_def)

lemma demo_hasRank_env: "hasRank demo_Env = demo_hasRank"
  by (simp add: demo_Env_def)

text \<open>
  C7, at the input where it fails. Alice is in the lobby with rank \<open>+\<close>, on both sides of
  the relation. After the chat line \<^verbatim>\<open>|c|@alice|hi\<close> her own map \<^verbatim>\<open>user.rooms\<close> holds \<open>@\<close>
  for the lobby, and the map \<^verbatim>\<open>room.users\<close> of the lobby still holds \<open>+\<close> for her: the
  chat cases write the new rank to the user only, where the \<open>users\<close> case writes it to
  both maps.
\<close>

theorem chat_rank_change_one_sided:
  "user_rooms demo_alice ''lobby'' = Some ''+'' \<and>
   room_users (Rooms_rooms demo_World ''lobby'') ''alice'' = Some ''+'' \<and>
   map_option (\<lambda>u. user_rooms u ''lobby'')
     (Users_users (world_after (parse demo_Env demo_World ''|c|@alice|hi'' ''lobby'')) ''alice'') =
     Some (Some ''@'') \<and>
   room_users (Rooms_rooms (world_after (parse demo_Env demo_World ''|c|@alice|hi'' ''lobby''))
                 ''lobby'') ''alice'' = Some ''+''"
proof -
  have line: "drop 1 (split_str ''|c|@alice|hi'' CHR ''|'') = ''c'' # [''@alice'', ''hi'']"
    by simp
  have get: "Users_get demo_World (Some ''@alice'') = Some (''alice'', demo_alice)"
    by (simp add: Users_get_def toId_alice demo_World_def)
  have rank: "demo_hasRank (demo_alice\<lparr>user_rooms := (user_rooms demo_alice)(''lobby'' \<mapsto> ''@'')\<rparr>)
                ''lobby'' ''+''"
    by (simp add: demo_hasRank_def demo_rank_def)
  have old: "user_rooms demo_alice ''lobby'' = Some ''+''"
    by (simp add: demo_alice_def)
  have "parse demo_Env demo_World ''|c|@alice|hi'' ''lobby'' =
          completed (set_user ''alice''
                       (demo_alice\<lparr>user_rooms := (user_rooms demo_alice)(''lobby'' \<mapsto> ''@'')\<rparr>)
                       demo_World)
            [Call_parseCommand ''hi'']"
    by (simp add: parse_split [OF line] dispatch_c demo_not_vetoed chat_def field_def get
        parseCommand_hi charAt_def Let_def demo_self demo_hasRank_env rank old)
  then show ?thesis
    by (simp add: completed_def set_user_def demo_World_def demo_alice_def demo_lobby_def)
qed

text \<open>The chat cases never write to a room: whatever the line, \<^verbatim>\<open>room.users\<close> is after the
  call what it was before.\<close>

lemma chat_keeps_room_users:
  "Rooms_rooms (world_after (chat env w room name body time)) = Rooms_rooms w"
  by (simp add: chat_def completed_def set_user_def Let_def
      split: option.splits prod.splits call_result.splits completion.splits)

text \<open>The \<open>users\<close> case, for comparison: each entry writes its rank to both maps.\<close>

lemma users_loop_both_sides:
  assumes "Users_add w (Some (substr entry 1)) = (Some (uid, user), w1)"
    and "users_loop [entry] room w = (w2, e)"
  shows "room_users (Rooms_rooms w2 room) uid = Some (charAt entry 0) \<and>
         map_option (\<lambda>u. user_rooms u room) (Users_users w2 uid) = Some (Some (charAt entry 0))"
  using assms by (auto simp: set_user_def Let_def)















section \<open>Properties of moderation\<close>

lemma cooldown_messages: "cooldown (data\<lparr>md_messages := ms\<rparr>) time = cooldown data time"
  by (simp add: cooldown_def)

lemma escalate_keeps:
  "md_messages (fst (escalate pp pa data p)) = md_messages data \<and>
   md_lastAction (fst (escalate pp pa data p)) = md_lastAction data"
  by (simp add: escalate_def Let_def)

lemma punish_messages: "md_messages (fst (punish env self pp pa room user time data p)) = md_messages data"
  using escalate_keeps [of pp pa data p]
  by (cases "escalate pp pa data p") (auto simp: punish_def Let_def)

lemma punish_one_event: "length (snd (punish env self pp pa room user time data p)) = 1"
  by (cases "escalate pp pa data p") (auto simp: punish_def Let_def)

text \<open>\<^verbatim>\<open>moderate\<close> where its gate is passed.\<close>

lemma moderate_open:
  assumes "hasRank env self room ''%''"
    and "allowed_in (cfg_allowModeration (Config env)) room"
    and "cfg_punishmentPoints (Config env) = Some pp"
    and "cfg_punishmentActions (Config env) = Some pa"
    and "data = (room_data user room)\<lparr>md_messages :=
                  (normalize_message message, time) # md_messages (room_data user room)\<rparr>"
  shows "moderate env self message room uid user time =
           (if cooldown (room_data user room) time
            then (user\<lparr>user_roomData := (user_roomData user)(room \<mapsto> data)\<rparr>, [])
            else (case sort_by (by_points pp)
                         (punishments_of env (normalize_message message) room uid time data) of
                    [] \<Rightarrow> (user\<lparr>user_roomData := (user_roomData user)(room \<mapsto> data)\<rparr>, [])
                  | punishment # others \<Rightarrow>
                      (user\<lparr>user_roomData := (user_roomData user)
                               (room \<mapsto> fst (punish env self pp pa room user time data punishment))\<rparr>,
                       snd (punish env self pp pa room user time data punishment))))"
  using assms by (simp add: moderate_def Let_def cooldown_messages split: list.splits prod.splits)

lemma moderate_at_most_one: "length (snd (moderate env self message room uid user time)) \<le> 1"
  by (auto simp: moderate_def Let_def punish_one_event split: option.splits list.splits prod.splits
      dest: arg_cong [where f = "\<lambda>x. length (snd x)"])

lemma stretching_shout: "stretching demo_shout"
  unfolding demo_shout_def by code_simp

lemma caps_shout: "caps demo_shout"
  unfolding demo_shout_def by code_simp

lemma not_stretching_hi: "\<not> stretching ''hi''"
  by code_simp

lemma room_data_stored:
  "room_data (user\<lparr>user_roomData := (user_roomData user)(room \<mapsto> data)\<rparr>) room = data"
  by (simp add: room_data_def)

lemma punish_lastAction:
  "md_lastAction (fst (punish env self pp pa room user time data p)) = time \<or>
   md_lastAction (fst (punish env self pp pa room user time data p)) = md_lastAction data"
  using escalate_keeps [of pp pa data p]
  by (cases "escalate pp pa data p") (auto simp: punish_def Let_def)

text \<open>
  C3, as amended. Where moderation is on (the gate of \<^verbatim>\<open>moderate\<close> is passed), every
  evaluation first puts the normalized message and its time at the head of the history
  of the record. If the record is in its cooldown (\<^verbatim>\<open>lastAction\<close> is not zero and the
  time is less than 5000 ms after it), the evaluation stops there: nothing is said, and
  the points and \<^verbatim>\<open>lastAction\<close> stay as they are. So, of two evaluations in a row for the
  same user and room, when the first has left \<^verbatim>\<open>lastAction\<close> at its own time, which is
  not zero (as every action but a verbal warning does), and the second comes less than
  5000 ms later, the second applies no punishment, and the two apply one at most.
\<close>

theorem cooldown_stops_evaluation:
  assumes rank: "hasRank env self room ''%''"
    and allowed: "allowed_in (cfg_allowModeration (Config env)) room"
    and points: "cfg_punishmentPoints (Config env) = Some pp"
    and actions: "cfg_punishmentActions (Config env) = Some pa"
    and first: "moderate env self message1 room uid user time1 = (user1, evs1)"
    and second: "moderate env self message2 room uid user1 time2 = (user2, evs2)"
  shows "md_messages (room_data user1 room) =
           (normalize_message message1, time1) # md_messages (room_data user room) \<and>
         (cooldown (room_data user room) time1 \<longrightarrow>
            evs1 = [] \<and>
            md_points (room_data user1 room) = md_points (room_data user room) \<and>
            md_lastAction (room_data user1 room) = md_lastAction (room_data user room)) \<and>
         (\<forall>t1 t2. time1 = Num t1 \<and> time2 = Num t2 \<and> t1 \<noteq> 0 \<and>
            md_lastAction (room_data user1 room) = Num t1 \<and> t2 - t1 < PUNISHMENT_COOLDOWN \<longrightarrow>
            evs2 = [] \<and> length (evs1 @ evs2) \<le> 1)"
proof -
  define data where "data = (room_data user room)\<lparr>md_messages :=
                  (normalize_message message1, time1) # md_messages (room_data user room)\<rparr>"
  note open1 = moderate_open [OF rank allowed points actions data_def, of uid]
  have recorded: "md_messages (room_data user1 room) =
           (normalize_message message1, time1) # md_messages (room_data user room)"
    using first unfolding open1
    by (auto simp: room_data_stored punish_messages data_def split: if_splits list.splits)
  have stops: "evs1 = [] \<and>
            md_points (room_data user1 room) = md_points (room_data user room) \<and>
            md_lastAction (room_data user1 room) = md_lastAction (room_data user room)"
    if "cooldown (room_data user room) time1"
    using first that unfolding open1
    by (auto simp: room_data_stored data_def)
  have twice: "evs2 = [] \<and> length (evs1 @ evs2) \<le> 1"
    if a: "time1 = Num t1 \<and> time2 = Num t2 \<and> t1 \<noteq> 0 \<and>
            md_lastAction (room_data user1 room) = Num t1 \<and> t2 - t1 < PUNISHMENT_COOLDOWN"
    for t1 t2
  proof -
    from a have cool: "cooldown (room_data user1 room) time2"
      by (simp add: cooldown_def)
    have "evs2 = []"
      using second cool
      by (simp add: moderate_open [OF rank allowed points actions refl])
    moreover have "length evs1 \<le> 1"
      using moderate_at_most_one [of env self message1 room uid user time1] first by simp
    ultimately show ?thesis
      by simp
  qed
  from recorded stops twice show ?thesis
    by blast
qed

text \<open>An evaluation that applies an action other than a verbal warning stamps the record with
  its time; a verbal warning leaves the stamp as it is.\<close>

lemma punish_stamps:
  "md_lastAction (fst (punish env self pp pa room user time data p)) =
     (if snd (escalate pp pa data p) = ''verbalwarn'' then md_lastAction data else time)"
  using escalate_keeps [of pp pa data p]
  by (cases "escalate pp pa data p") (auto simp: punish_def Let_def)

theorem cooldown_stops_evaluation_witness:
  "snd (moderate demo_Env demo_bot ''hello'' ''lobby'' ''dave''
         (fst (moderate demo_Env demo_bot demo_shout ''lobby'' ''dave''
                (fst (moderate demo_Env demo_bot demo_shout ''lobby'' ''dave'' demo_dave (Num 1000000)))
                (Num 1001000)))
         (Num 1002000)) = [] \<and>
   md_lastAction (room_data
        (fst (moderate demo_Env demo_bot demo_shout ''lobby'' ''dave''
                (fst (moderate demo_Env demo_bot demo_shout ''lobby'' ''dave'' demo_dave (Num 1000000)))
                (Num 1001000))) ''lobby'') = Num 1001000"
proof -
  define u1 where "u1 = fst (moderate demo_Env demo_bot demo_shout ''lobby'' ''dave'' demo_dave (Num 1000000))"
  define u2 where "u2 = fst (moderate demo_Env demo_bot demo_shout ''lobby'' ''dave'' u1 (Num 1001000))"
  have stamp: "md_lastAction (room_data u2 ''lobby'') = Num 1001000"
    unfolding u2_def u1_def by code_simp
  have g1: "hasRank demo_Env demo_bot ''lobby'' ''%''"
    and g2: "allowed_in (cfg_allowModeration (Config demo_Env)) ''lobby''"
    by code_simp+
  have g3: "cfg_punishmentPoints (Config demo_Env) = cfg_punishmentPoints demo_Config"
    and g4: "cfg_punishmentActions (Config demo_Env) = cfg_punishmentActions demo_Config"
    by (simp_all add: demo_Env_def)
  have "snd (moderate demo_Env demo_bot ''hello'' ''lobby'' ''dave'' u2 (Num 1002000)) = []"
    using cooldown_stops_evaluation
            [OF g1 g2 g3 [unfolded demo_Config_def Config.simps] g4 [unfolded demo_Config_def Config.simps],
             of demo_shout "''dave''" u1 "Num 1001000" u2
                "snd (moderate demo_Env demo_bot demo_shout ''lobby'' ''dave'' u1 (Num 1001000))"
                "''hello''" "Num 1002000"
                "fst (moderate demo_Env demo_bot ''hello'' ''lobby'' ''dave'' u2 (Num 1002000))"
                "snd (moderate demo_Env demo_bot ''hello'' ''lobby'' ''dave'' u2 (Num 1002000))"]
          stamp
    by (simp add: u2_def PUNISHMENT_COOLDOWN_def)
  with stamp show ?thesis
    by (simp add: u2_def u1_def)
qed

text \<open>
  C3 as stated fails: two violations one second apart are both punished. Dave, who has no
  rank, sends thirty capital letters twice, at 1000 s and at 1001 s. The first line earns
  a verbal warning, which does not set \<^verbatim>\<open>lastAction\<close>; the second is evaluated in full
  and earns a \<^verbatim>\<open>/warn\<close>.
\<close>

theorem two_violations_two_punishments:
  "events (parse demo_Env demo_World
             ''|c:|1000| dave|AAAAAAAAAAAAAAAAAAAAAAAAAAAAAA'' ''lobby'') =
     [Call_parseCommand ''AAAAAAAAAAAAAAAAAAAAAAAAAAAAAA'',
      Call_moderate ''AAAAAAAAAAAAAAAAAAAAAAAAAAAAAA'',
      Room_say (In_room ''lobby'') ''Dave, please do not stretch''] \<and>
   events (parse demo_Env
             (world_after (parse demo_Env demo_World
                ''|c:|1000| dave|AAAAAAAAAAAAAAAAAAAAAAAAAAAAAA'' ''lobby''))
             ''|c:|1001| dave|AAAAAAAAAAAAAAAAAAAAAAAAAAAAAA'' ''lobby'') =
     [Call_parseCommand ''AAAAAAAAAAAAAAAAAAAAAAAAAAAAAA'',
      Call_moderate ''AAAAAAAAAAAAAAAAAAAAAAAAAAAAAA'',
      Room_say (In_room ''lobby'') ''/warn Dave, please do not stretch'']"
  by code_simp














text \<open>The scenario of the spec on the sample installation: Dave, who has no rank, sends five
  lines within four seconds and a sixth ten seconds after the fifth. The fifth line is
  answered by the mute of the flood rule, and no other line is answered.\<close>

lemma flood_scenario:
  "parse_all demo_Env demo_World ''lobby''
     [''|c:|1000| dave|a'', ''|c:|1001| dave|b'', ''|c:|1002| dave|c'', ''|c:|1003| dave|d'',
      ''|c:|1004| dave|e'', ''|c:|1014| dave|f''] =
     [[Call_parseCommand ''a'', Call_moderate ''a''],
      [Call_parseCommand ''b'', Call_moderate ''b''],
      [Call_parseCommand ''c'', Call_moderate ''c''],
      [Call_parseCommand ''d'', Call_moderate ''d''],
      [Call_parseCommand ''e'', Call_moderate ''e'',
       Room_say (In_room ''lobby'') ''/mute Dave, please do not flood the chat''],
      [Call_parseCommand ''f'', Call_moderate ''f'']]"
  by code_simp


end
